theory Spec2Isabelle
  imports Main
begin

section \<open>JavaScript values and strings\<close>

text \<open>
  The client receives untyped data in three places: the app configuration
  (\<^verbatim>\<open>Record<string, any>\<close>), the \<^verbatim>\<open>data\<close> field of a GraphQL response
  (\<^verbatim>\<open>T = any\<close>) and the block's input values. Such data is a \<open>jsval\<close>. An
  object is the list of its own entries, as \<^verbatim>\<open>JSON.parse\<close> makes them, in the order
  \<^verbatim>\<open>Object.entries\<close> enumerates them.

  A number is either a safe integer (of magnitude below \<open>2^53\<close>, the integers that a
  double holds exactly and that JavaScript prints in plain decimal), \<open>JNum\<close>, or any
  other number that JSON can give (a fraction, or a number of magnitude \<open>2^53\<close> or
  more), \<open>JOtherNum\<close>, which is given by the text \<^verbatim>\<open>String\<close> makes of it. NaN does
  not occur in parsed JSON, and the zeros are the safe integer 0.
\<close>

typedef safe_integer = "{n :: int. - 9007199254740992 < n \<and> n < 9007199254740992}"
  by (rule exI [of _ 0]) simp

instantiation safe_integer :: equal
begin

definition equal_safe_integer :: "safe_integer \<Rightarrow> safe_integer \<Rightarrow> bool" where
  "equal_safe_integer a b \<longleftrightarrow> Rep_safe_integer a = Rep_safe_integer b"

instance
  by standard (simp add: equal_safe_integer_def Rep_safe_integer_inject)

end

datatype jsval =
    JUndefined
  | JNull
  | JBool bool
  | JNum safe_integer
  | JOtherNum string
  | JStr string
  | JArr "jsval list"
  | JObj "(string \<times> jsval) list"

text \<open>What \<^verbatim>\<open>if (v)\<close> and \<^verbatim>\<open>!v\<close> test.\<close>

fun truthy :: "jsval \<Rightarrow> bool" where
  "truthy JUndefined = False"
| "truthy JNull = False"
| "truthy (JBool b) = b"
| "truthy (JNum n) = (Rep_safe_integer n \<noteq> 0)"
| "truthy (JOtherNum t) = True"
| "truthy (JStr s) = (s \<noteq> [])"
| "truthy (JArr xs) = True"
| "truthy (JObj kvs) = True"

text \<open>A \<^verbatim>\<open>Record<string, any>\<close>; reading a key it does not have gives \<^verbatim>\<open>undefined\<close>.\<close>

type_synonym js_record = "string \<rightharpoonup> jsval"

definition get_prop :: "js_record \<Rightarrow> string \<Rightarrow> jsval" where
  "get_prop r k = (case r k of None \<Rightarrow> JUndefined | Some v \<Rightarrow> v)"

text \<open>\<^verbatim>\<open>Array.prototype.join\<close> on an array of strings.\<close>

fun join :: "string \<Rightarrow> string list \<Rightarrow> string" where
  "join sep [] = []"
| "join sep [x] = x"
| "join sep (x # y # ys) = x @ sep @ join sep (y # ys)"

text \<open>
  \<^verbatim>\<open>String.prototype.toLowerCase\<close> on the ASCII letters; every other character is
  left as it is.
\<close>

definition lower_char :: "char \<Rightarrow> char" where
  "lower_char c =
     (let n = (of_char c :: nat) in if 65 \<le> n \<and> n \<le> 90 then char_of (n + 32) else c)"

definition toLowerCase :: "string \<Rightarrow> string" where
  "toLowerCase s = map lower_char s"

text \<open>\<^verbatim>\<open>String.prototype.includes\<close>: does \<open>sub\<close> occur in \<open>s\<close> as a substring?\<close>

fun startsWith :: "string \<Rightarrow> string \<Rightarrow> bool" where
  "startsWith s [] = True"
| "startsWith [] (y # ys) = False"
| "startsWith (x # xs) (y # ys) = (x = y \<and> startsWith xs ys)"

fun str_includes :: "string \<Rightarrow> string \<Rightarrow> bool" where
  "str_includes [] sub = (sub = [])"
| "str_includes (x # xs) sub = (startsWith (x # xs) sub \<or> str_includes xs sub)"

text \<open>The decimal digits of a natural number, as a template literal prints it.\<close>

definition digit_char :: "nat \<Rightarrow> char" where
  "digit_char d = char_of (48 + d)"

function string_of_nat :: "nat \<Rightarrow> string" where
  "string_of_nat n =
     (if n < 10 then [digit_char n] else string_of_nat (n div 10) @ [digit_char (n mod 10)])"
  by pat_completeness auto
termination
  by (relation "measure id") auto

declare string_of_nat.simps [simp del]

text \<open>The line feed of the source's \<^verbatim>\<open>\n\<close>.\<close>

definition NL :: string where
  "NL = [CHR 0x0A]"

section \<open>Errors\<close>

text \<open>
  Every \<^verbatim>\<open>throw\<close> of the source is \<^verbatim>\<open>new Error(message)\<close>; \<open>FetchFailed\<close> is
  a rejected \<^verbatim>\<open>fetch\<close> (or a body that is not JSON), \<open>TypeError\<close> a property read
  on \<^verbatim>\<open>undefined\<close> or \<^verbatim>\<open>null\<close>.
\<close>

datatype error = Error string | FetchFailed | TypeError

section \<open>Credentials\<close>

text \<open>
  \<^verbatim>\<open>interface SpaceliftCredentials\<close> declares three strings. \<^verbatim>\<open>extractCredentials\<close>
  copies whatever truthy values the untyped configuration holds, so the record is
  parametrised by the type of its fields: \<open>jsval\<close> for what is extracted, \<open>string\<close>,
  the declared type, in the client functions.
\<close>

record 'v SpaceliftCredentials =
  apiKeyId :: 'v
  apiKeySecret :: 'v
  endpoint :: 'v

definition getCacheKey :: "string SpaceliftCredentials \<Rightarrow> string" where
  "getCacheKey credentials =
     ''spacelift_jwt_'' @ endpoint credentials @ ''_'' @ apiKeyId credentials"

definition extractCredentials :: "js_record \<Rightarrow> error + jsval SpaceliftCredentials" where
  "extractCredentials appConfig =
     (if \<not> truthy (get_prop appConfig ''apiKeyId'') \<or> \<not> truthy (get_prop appConfig ''apiKeySecret'')
         \<or> \<not> truthy (get_prop appConfig ''endpoint'')
      then Inl (Error ''Missing required Spacelift credentials in app config'')
      else Inr \<lparr> apiKeyId = get_prop appConfig ''apiKeyId'',
                 apiKeySecret = get_prop appConfig ''apiKeySecret'',
                 endpoint = get_prop appConfig ''endpoint'' \<rparr>)"

section \<open>GraphQL responses\<close>

text \<open>
  \<^verbatim>\<open>extensions?: Record<string, string>\<close>. \<open>ExtObject\<close> is an object, given by
  the entries \<^verbatim>\<open>Object.entries\<close> lists; \<open>ExtOther\<close> is a truthy value that is not an
  object (which \<^verbatim>\<open>formatExtensions\<close> guards against), given by its
  \<^verbatim>\<open>JSON.stringify\<close> text. An absent or falsy \<^verbatim>\<open>extensions\<close> is \<open>None\<close>.
\<close>

datatype extensions_value = ExtObject "(string \<times> string) list" | ExtOther string

record gql_error =
  message :: string
  extensions :: "extensions_value option"

text \<open>
  \<^verbatim>\<open>interface SpaceliftApiResponse<T>\<close>. A field is \<open>None\<close> when the parsed JSON
  does not have it. \<^verbatim>\<open>errors\<close> is an array when present (\<open>None\<close> also stands for
  a \<^verbatim>\<open>null\<close>, which is falsy like a missing field), so \<^verbatim>\<open>if (result.errors)\<close> tests
  presence: an empty array is truthy. The \<^verbatim>\<open>data\<close> of a caller's query is any JSON
  value, \<^verbatim>\<open>null\<close> included.
\<close>

record 'd SpaceliftApiResponse =
  data :: "'d option"
  errors :: "gql_error list option"

text \<open>
  The payload of the login mutation, \<^verbatim>\<open>{ apiKeyUser: { jwt, validUntil } }\<close>. It is read
  with \<^verbatim>\<open>?.\<close> only, which takes \<^verbatim>\<open>null\<close> and a missing field alike: both are \<open>None\<close>.
\<close>

record login_user =
  user_jwt :: "string option"
  user_validUntil :: "int option"

record login_data =
  apiKeyUser :: "login_user option"

record CachedJWTToken =
  jwt :: string

section \<open>The world: key/value store, clock and remote service\<close>

datatype http_request =
    LoginRequest string string string
  | QueryRequest string string string jsval

text \<open>
  \<open>LoginRequest endpoint id secret\<close> is the POST of \<^verbatim>\<open>fetchNewJWT\<close>,
  \<open>QueryRequest endpoint token query variables\<close> the POST of \<^verbatim>\<open>makeRequest\<close> with
  its \<^verbatim>\<open>Authorization: Bearer token\<close> header.

  The store \<^verbatim>\<open>kv.app\<close> maps a key to its value and the ttl it was set with. The
  remote service is the replies it is going to give, one script for login mutations
  and one for caller queries; every request sent is appended to \<open>requests\<close>. With
  no reply left the \<^verbatim>\<open>fetch\<close> is rejected. \<open>clock_ms\<close> is what \<^verbatim>\<open>Date.now()\<close>
  returns, \<open>emitted\<close> the payloads given to \<^verbatim>\<open>events.emit\<close>.
\<close>

record world =
  kv_store :: "string \<rightharpoonup> CachedJWTToken \<times> int"
  clock_ms :: int
  login_replies :: "login_data SpaceliftApiResponse list"
  query_replies :: "jsval SpaceliftApiResponse list"
  requests :: "http_request list"
  emitted :: "jsval list"

text \<open>An \<^verbatim>\<open>async\<close> function: the outcome (thrown error or value) and the world after it.\<close>

type_synonym 'a io = "world \<Rightarrow> (error + 'a) \<times> world"

definition return :: "'a \<Rightarrow> 'a io" where
  "return x w = (Inr x, w)"

definition throw :: "error \<Rightarrow> 'a io" where
  "throw e w = (Inl e, w)"

definition and_then :: "'a io \<Rightarrow> ('a \<Rightarrow> 'b io) \<Rightarrow> 'b io" where
  "and_then m f w = (case m w of (Inl e, w') \<Rightarrow> (Inl e, w') | (Inr x, w') \<Rightarrow> f x w')"

definition fetch_login :: "http_request \<Rightarrow> login_data SpaceliftApiResponse io" where
  "fetch_login req w =
     (let w' = w\<lparr>requests := requests w @ [req]\<rparr> in
      case login_replies w of
        [] \<Rightarrow> (Inl FetchFailed, w')
      | r # rs \<Rightarrow> (Inr r, w'\<lparr>login_replies := rs\<rparr>))"

definition fetch_query :: "http_request \<Rightarrow> jsval SpaceliftApiResponse io" where
  "fetch_query req w =
     (let w' = w\<lparr>requests := requests w @ [req]\<rparr> in
      case query_replies w of
        [] \<Rightarrow> (Inl FetchFailed, w')
      | r # rs \<Rightarrow> (Inr r, w'\<lparr>query_replies := rs\<rparr>))"

definition kv_get :: "string \<Rightarrow> CachedJWTToken option io" where
  "kv_get k w = (Inr (map_option fst (kv_store w k)), w)"

definition kv_set :: "string \<Rightarrow> CachedJWTToken \<Rightarrow> int \<Rightarrow> unit io" where
  "kv_set k v ttl w = (Inr (), w\<lparr>kv_store := (kv_store w)(k \<mapsto> (v, ttl))\<rparr>)"

definition date_now :: "int io" where
  "date_now w = (Inr (clock_ms w), w)"

section \<open>Token manager\<close>

definition fetchNewJWT :: "string SpaceliftCredentials \<Rightarrow> (string \<times> int) io" where
  "fetchNewJWT credentials =
     and_then (fetch_login (LoginRequest (endpoint credentials) (apiKeyId credentials)
                             (apiKeySecret credentials)))
       (\<lambda>result.
          case errors result of
            Some es \<Rightarrow> throw (Error (''Authentication failed: '' @ join '', '' (map message es)))
          | None \<Rightarrow>
              (case (Option.bind (Option.bind (data result) apiKeyUser) user_jwt,
                     Option.bind (Option.bind (data result) apiKeyUser) user_validUntil) of
                 (Some j, Some v) \<Rightarrow>
                   if j = [] \<or> v = 0
                   then throw (Error ''Failed to obtain JWT token or expiration time'')
                   else return (j, v)
               | _ \<Rightarrow> throw (Error ''Failed to obtain JWT token or expiration time'')))"

definition refreshSpaceliftJWT :: "string SpaceliftCredentials \<Rightarrow> string io" where
  "refreshSpaceliftJWT credentials =
     (let cacheKey = getCacheKey credentials in
      and_then (fetchNewJWT credentials)
        (\<lambda>(jwt', validUntil).
           and_then date_now
             (\<lambda>ms. let now = ms div 1000;
                        ttlSeconds = max (validUntil - now - 300) 60
                    in and_then (kv_set cacheKey \<lparr> jwt = jwt' \<rparr> ttlSeconds)
                         (\<lambda>_. return jwt'))))"

definition getSpaceliftJWT :: "string SpaceliftCredentials \<Rightarrow> string io" where
  "getSpaceliftJWT credentials =
     (let cacheKey = getCacheKey credentials in
      and_then (kv_get cacheKey)
        (\<lambda>cachedToken.
           case cachedToken of
             Some cached \<Rightarrow> return (jwt cached)
           | None \<Rightarrow> refreshSpaceliftJWT credentials))"

section \<open>Query executor\<close>

definition formatExtensions :: "extensions_value \<Rightarrow> string" where
  "formatExtensions ext =
     (case ext of
        ExtOther json \<Rightarrow> json
      | ExtObject entries \<Rightarrow>
          join NL (map (\<lambda>(index, (k, v)).
                          ''    '' @ string_of_nat (index + 1) @ ''. '' @ k @ '': '' @ v)
                       (enumerate 0 entries)))"

text \<open>
  The message of the two \<^verbatim>\<open>throw new Error(`GraphQL error:...`)\<close> of
  \<^verbatim>\<open>executeSpaceliftQuery\<close>, which are the same template.
\<close>

definition format_error :: "gql_error \<Rightarrow> string" where
  "format_error e =
     (case extensions e of
        Some ext \<Rightarrow> '' - '' @ message e @ '':'' @ NL @ formatExtensions ext
      | None \<Rightarrow> '' - '' @ message e)"

definition graphql_error_text :: "gql_error list \<Rightarrow> string" where
  "graphql_error_text es = ''GraphQL error:'' @ NL @ join NL (map format_error es) @ NL"

definition makeRequest ::
  "string SpaceliftCredentials \<Rightarrow> string \<Rightarrow> jsval \<Rightarrow> string \<Rightarrow> jsval SpaceliftApiResponse io" where
  "makeRequest credentials query variables token =
     fetch_query (QueryRequest (endpoint credentials) token query variables)"

definition errorMessage :: "gql_error list \<Rightarrow> string" where
  "errorMessage es = toLowerCase (join '' '' (map message es))"

definition executeSpaceliftQuery ::
  "string SpaceliftCredentials \<Rightarrow> string \<Rightarrow> jsval \<Rightarrow> jsval io" where
  "executeSpaceliftQuery credentials query variables =
     and_then (getSpaceliftJWT credentials)
       (\<lambda>jwt0.
     and_then (makeRequest credentials query variables jwt0)
       (\<lambda>result0.
     and_then
       (case errors result0 of
          Some es \<Rightarrow>
            if str_includes (errorMessage es) ''unauthorized''
            then and_then (refreshSpaceliftJWT credentials)
                   (\<lambda>jwt1.
                 and_then (makeRequest credentials query variables jwt1)
                   (\<lambda>result1.
                      case errors result1 of
                        Some es1 \<Rightarrow> throw (Error (graphql_error_text es1))
                      | None \<Rightarrow> return result1))
            else throw (Error (graphql_error_text es))
        | None \<Rightarrow> return result0)
       (\<lambda>result.
          case data result of
            None \<Rightarrow> throw (Error ''No data returned from Spacelift API'')
          | Some d \<Rightarrow>
              if \<not> truthy d then throw (Error ''No data returned from Spacelift API'')
              else return d)))"

section \<open>The block createStackFromBlueprint\<close>






text \<open>The part of \<^verbatim>\<open>defineSpaceliftInputConfig\<close> that the block's logic reads.\<close>

record spacelift_input_config =
  required :: bool
  graphqlFieldKey :: string












section \<open>The error format in the words of the specification\<close>

text \<open>
  The specification's rendering of an error list, kept apart from the source's
  \<open>graphql_error_text\<close> to be compared with it: an error without extensions is
  \<^verbatim>\<open>" - {message}"\<close>, one with extensions \<^verbatim>\<open>" - {message}:"\<close>, a line feed and one
  line \<^verbatim>\<open>"{n}. {key}: {value}"\<close> per entry, numbered from 1.
\<close>

definition spec_extension_line :: "nat \<Rightarrow> string \<times> string \<Rightarrow> string" where
  "spec_extension_line n kv = string_of_nat n @ ''. '' @ fst kv @ '': '' @ snd kv"

definition spec_format_error :: "gql_error \<Rightarrow> string" where
  "spec_format_error e =
     (case extensions e of
        None \<Rightarrow> '' - '' @ message e
      | Some (ExtObject entries) \<Rightarrow>
          '' - '' @ message e @ '':'' @ NL
          @ join NL (map (\<lambda>i. spec_extension_line (i + 1) (entries ! i)) [0..<length entries])
      | Some (ExtOther json) \<Rightarrow> '' - '' @ message e @ '':'' @ NL @ json)"

definition spec_graphql_error_text :: "gql_error list \<Rightarrow> string" where
  "spec_graphql_error_text es =
     ''GraphQL error:'' @ NL @ join NL (map spec_format_error es) @ NL"

section \<open>Example data\<close>

text \<open>Concrete credentials, replies and worlds on which the theorems below are run.\<close>

definition example_credentials :: "string SpaceliftCredentials" where
  "example_credentials =
     \<lparr> apiKeyId = ''key1'', apiKeySecret = ''secret'', endpoint = ''acme.app.spacelift.io'' \<rparr>"

definition login_ok :: "string \<Rightarrow> int \<Rightarrow> login_data SpaceliftApiResponse" where
  "login_ok tok until =
     \<lparr> data = Some \<lparr> apiKeyUser = Some \<lparr> user_jwt = Some tok, user_validUntil = Some until \<rparr> \<rparr>,
       errors = None \<rparr>"

definition plain_error :: "string \<Rightarrow> gql_error" where
  "plain_error m = \<lparr> message = m, extensions = None \<rparr>"

definition failed_reply :: "string list \<Rightarrow> 'd SpaceliftApiResponse" where
  "failed_reply ms = \<lparr> data = None, errors = Some (map plain_error ms) \<rparr>"

definition data_reply :: "jsval \<Rightarrow> jsval SpaceliftApiResponse" where
  "data_reply d = \<lparr> data = Some d, errors = None \<rparr>"

text \<open>
  A world at \<^verbatim>\<open>Date.now() = 1700000000123\<close> in which the token \<open>old\<close> is cached for
  the example credentials and the remote service will answer with the given replies.
\<close>

definition example_world ::
  "login_data SpaceliftApiResponse list \<Rightarrow> jsval SpaceliftApiResponse list \<Rightarrow> world" where
  "example_world ls qs =
     \<lparr> kv_store = [''spacelift_jwt_acme.app.spacelift.io_key1'' \<mapsto> (\<lparr> jwt = ''old'' \<rparr>, 600)],
       clock_ms = 1700000000123, login_replies = ls, query_replies = qs,
       requests = [], emitted = [] \<rparr>"

text \<open>The same world with nothing cached.\<close>

definition fresh_world ::
  "login_data SpaceliftApiResponse list \<Rightarrow> jsval SpaceliftApiResponse list \<Rightarrow> world" where
  "fresh_world ls qs = (example_world ls qs)\<lparr>kv_store := Map.empty\<rparr>"

text \<open>How many caller queries, and how many login mutations, have been sent.\<close>

fun is_query_request :: "http_request \<Rightarrow> bool" where
  "is_query_request (QueryRequest e t q v) = True"
| "is_query_request (LoginRequest e i s) = False"

definition queries_sent :: "world \<Rightarrow> nat" where
  "queries_sent w = length (filter is_query_request (requests w))"

definition logins_sent :: "world \<Rightarrow> nat" where
  "logins_sent w = length (filter (\<lambda>r. \<not> is_query_request r) (requests w))"

section \<open>Facts about strings and lists\<close>

lemma startsWith_iff: "startsWith s p \<longleftrightarrow> (\<exists>b. s = p @ b)"
  by (induction s p rule: startsWith.induct) auto

lemma str_includes_iff: "str_includes s sub \<longleftrightarrow> (\<exists>a b. s = a @ sub @ b)"
proof (induction s)
  case Nil
  then show ?case by auto
next
  case (Cons x xs)
  show ?case
  proof
    assume "str_includes (x # xs) sub"
    then consider "startsWith (x # xs) sub" | "str_includes xs sub" by auto
    then show "\<exists>a b. x # xs = a @ sub @ b"
    proof cases
      case 1
      then obtain b where "x # xs = sub @ b" by (auto simp: startsWith_iff)
      then have "x # xs = [] @ sub @ b" by simp
      then show ?thesis by blast
    next
      case 2
      then obtain a b where "xs = a @ sub @ b" using Cons.IH by auto
      then have "x # xs = (x # a) @ sub @ b" by simp
      then show ?thesis by blast
    qed
  next
    assume "\<exists>a b. x # xs = a @ sub @ b"
    then obtain a b where ab: "x # xs = a @ sub @ b" by blast
    show "str_includes (x # xs) sub"
    proof (cases a)
      case Nil
      with ab have "startsWith (x # xs) sub" by (auto simp: startsWith_iff)
      then show ?thesis by simp
    next
      case (Cons y ys)
      with ab have "xs = ys @ sub @ b" by simp
      then have "str_includes xs sub" using Cons.IH by blast
      then show ?thesis by simp
    qed
  qed
qed

lemma join_contains: "x \<in> set xs \<Longrightarrow> \<exists>a b. join sep xs = a @ x @ b"
proof (induction sep xs rule: join.induct)
  case (1 sep)
  then show ?case by simp
next
  case (2 sep y)
  then have "join sep [y] = [] @ x @ []" by simp
  then show ?case by blast
next
  case (3 sep y z zs)
  show ?case
  proof (cases "x = y")
    case True
    then have "join sep (y # z # zs) = [] @ x @ (sep @ join sep (z # zs))" by simp
    then show ?thesis by blast
  next
    case False
    with "3.prems" have "x \<in> set (z # zs)" by simp
    then obtain a b where "join sep (z # zs) = a @ x @ b" using "3.IH" by blast
    then have "join sep (y # z # zs) = (y @ sep @ a) @ x @ b" by simp
    then show ?thesis by blast
  qed
qed

lemma str_includes_join:
  assumes "x \<in> set xs" "str_includes x sub"
  shows "str_includes (join sep xs) sub"
proof -
  from assms(1) obtain a b where j: "join sep xs = a @ x @ b" using join_contains by blast
  from assms(2) obtain a' b' where "x = a' @ sub @ b'" by (auto simp: str_includes_iff)
  with j have "join sep xs = (a @ a') @ sub @ (b' @ b)" by simp
  then show ?thesis unfolding str_includes_iff by blast
qed

lemma toLowerCase_join: "toLowerCase (join sep xs) = join (toLowerCase sep) (map toLowerCase xs)"
  by (induction sep xs rule: join.induct) (simp_all add: toLowerCase_def)

lemma split_at_first:
  "x \<notin> set a \<Longrightarrow> x \<notin> set b \<Longrightarrow> a @ x # c = b @ x # d \<Longrightarrow> a = b \<and> c = d"
proof (induction a arbitrary: b)
  case Nil
  then show ?case by (cases b) auto
next
  case (Cons y ys)
  then show ?case by (cases b) auto
qed

lemma split_at_last:
  assumes "x \<notin> set c" "x \<notin> set d" "a @ x # c = b @ x # d"
  shows "a = b \<and> c = d"
proof -
  from assms(3) have "rev (a @ x # c) = rev (b @ x # d)" by simp
  then have "rev c @ x # rev a = rev d @ x # rev b" by simp
  with assms(1,2) have "rev c = rev d \<and> rev a = rev b"
    using split_at_first [of x "rev c" "rev d" "rev a" "rev b"] by simp
  then show ?thesis by simp
qed

lemma enumerate_map_pair:
  "map (\<lambda>(i, kv). g i kv) (enumerate 0 xs) = map (\<lambda>i. g i (xs ! i)) [0..<length xs]"
proof (rule nth_equalityI)
  show "length (map (\<lambda>(i, kv). g i kv) (enumerate 0 xs)) = length (map (\<lambda>i. g i (xs ! i)) [0..<length xs])"
    by simp
next
  fix i
  assume "i < length (map (\<lambda>(i, kv). g i kv) (enumerate 0 xs))"
  then have "i < length xs" by simp
  then show "map (\<lambda>(i, kv). g i kv) (enumerate 0 xs) ! i = map (\<lambda>i. g i (xs ! i)) [0..<length xs] ! i"
    by (simp add: nth_enumerate_eq)
qed

lemma enumerate_map_index:
  "map (\<lambda>(i, (k, v)). f i k v) (enumerate 0 xs)
   = map (\<lambda>i. f i (fst (xs ! i)) (snd (xs ! i))) [0..<length xs]"
proof -
  have "(\<lambda>(i, (k, v)). f i k v) = (\<lambda>(i, kv). f i (fst kv) (snd kv))"
    by (rule ext) (simp only: split_beta)
  then show ?thesis
    using enumerate_map_pair [of "\<lambda>i kv. f i (fst kv) (snd kv)" xs] by (simp only:)
qed

section \<open>What each step does\<close>

lemma refresh_unfold:
  assumes "fetchNewJWT c w = (Inr (tok, until), w1)"
  shows "refreshSpaceliftJWT c w =
     (Inr tok, w1\<lparr>kv_store := (kv_store w1)(getCacheKey c \<mapsto>
        (\<lparr> jwt = tok \<rparr>, max (until - clock_ms w1 div 1000 - 300) 60))\<rparr>)"
  using assms
  by (simp add: refreshSpaceliftJWT_def and_then_def date_now_def kv_set_def return_def Let_def)

lemma refresh_stores:
  assumes "refreshSpaceliftJWT c w = (Inr tok, w')"
  shows "\<exists>ttl. kv_store w' = (kv_store w)(getCacheKey c \<mapsto> (\<lparr> jwt = tok \<rparr>, ttl)) \<and> 60 \<le> ttl"
proof -
  obtain res w1 where f: "fetchNewJWT c w = (res, w1)" by (cases "fetchNewJWT c w")
  have kv1: "kv_store w1 = kv_store w"
    using f
    by (auto simp: fetchNewJWT_def and_then_def fetch_login_def Let_def throw_def return_def
        split: list.splits option.splits prod.splits if_splits)
  show ?thesis
  proof (cases res)
    case (Inl e)
    with f assms show ?thesis by (simp add: refreshSpaceliftJWT_def and_then_def Let_def)
  next
    case (Inr p)
    obtain t u where p: "p = (t, u)" by (cases p)
    with Inr f have "fetchNewJWT c w = (Inr (t, u), w1)" by simp
    from refresh_unfold [OF this] assms kv1 show ?thesis by auto
  qed
qed

lemma getSpaceliftJWT_cached:
  "kv_store w (getCacheKey c) = Some (t, ttl) \<Longrightarrow> getSpaceliftJWT c w = (Inr (jwt t), w)"
  by (simp add: getSpaceliftJWT_def and_then_def kv_get_def return_def)

text \<open>
  The paths through \<^verbatim>\<open>executeSpaceliftQuery\<close>, one lemma each: the token cannot be
  had; the first request is rejected; the first response has no errors; it has errors
  that do not match; it matches and the refresh fails; the retried request is
  rejected; the retried response has errors; the retried response has none.
\<close>

lemma exec_token_failed:
  "getSpaceliftJWT c w = (Inl e, w1) \<Longrightarrow> executeSpaceliftQuery c q v w = (Inl e, w1)"
  by (simp add: executeSpaceliftQuery_def and_then_def)

lemma exec_request_failed:
  "getSpaceliftJWT c w = (Inr t0, w1) \<Longrightarrow> makeRequest c q v t0 w1 = (Inl e, w2) \<Longrightarrow>
   executeSpaceliftQuery c q v w = (Inl e, w2)"
  by (simp add: executeSpaceliftQuery_def and_then_def)

lemma exec_no_errors:
  "getSpaceliftJWT c w = (Inr t0, w1) \<Longrightarrow> makeRequest c q v t0 w1 = (Inr r0, w2) \<Longrightarrow>
   errors r0 = None \<Longrightarrow>
   executeSpaceliftQuery c q v w =
     (case data r0 of
        None \<Rightarrow> (Inl (Error ''No data returned from Spacelift API''), w2)
      | Some d \<Rightarrow> if truthy d then (Inr d, w2)
                  else (Inl (Error ''No data returned from Spacelift API''), w2))"
  by (simp add: executeSpaceliftQuery_def and_then_def return_def throw_def split: option.splits)

lemma exec_other_errors:
  "getSpaceliftJWT c w = (Inr t0, w1) \<Longrightarrow> makeRequest c q v t0 w1 = (Inr r0, w2) \<Longrightarrow>
   errors r0 = Some es \<Longrightarrow> \<not> str_includes (errorMessage es) ''unauthorized'' \<Longrightarrow>
   executeSpaceliftQuery c q v w = (Inl (Error (graphql_error_text es)), w2)"
  by (simp add: executeSpaceliftQuery_def and_then_def return_def throw_def)

lemma exec_refresh_failed:
  "getSpaceliftJWT c w = (Inr t0, w1) \<Longrightarrow> makeRequest c q v t0 w1 = (Inr r0, w2) \<Longrightarrow>
   errors r0 = Some es \<Longrightarrow> str_includes (errorMessage es) ''unauthorized'' \<Longrightarrow>
   refreshSpaceliftJWT c w2 = (Inl e, w3) \<Longrightarrow>
   executeSpaceliftQuery c q v w = (Inl e, w3)"
  by (simp add: executeSpaceliftQuery_def and_then_def return_def throw_def)

lemma exec_retry_failed:
  "getSpaceliftJWT c w = (Inr t0, w1) \<Longrightarrow> makeRequest c q v t0 w1 = (Inr r0, w2) \<Longrightarrow>
   errors r0 = Some es \<Longrightarrow> str_includes (errorMessage es) ''unauthorized'' \<Longrightarrow>
   refreshSpaceliftJWT c w2 = (Inr t1, w3) \<Longrightarrow> makeRequest c q v t1 w3 = (Inl e, w4) \<Longrightarrow>
   executeSpaceliftQuery c q v w = (Inl e, w4)"
  by (simp add: executeSpaceliftQuery_def and_then_def return_def throw_def)

lemma exec_retry_errors:
  "getSpaceliftJWT c w = (Inr t0, w1) \<Longrightarrow> makeRequest c q v t0 w1 = (Inr r0, w2) \<Longrightarrow>
   errors r0 = Some es \<Longrightarrow> str_includes (errorMessage es) ''unauthorized'' \<Longrightarrow>
   refreshSpaceliftJWT c w2 = (Inr t1, w3) \<Longrightarrow> makeRequest c q v t1 w3 = (Inr r1, w4) \<Longrightarrow>
   errors r1 = Some es1 \<Longrightarrow>
   executeSpaceliftQuery c q v w = (Inl (Error (graphql_error_text es1)), w4)"
  by (simp add: executeSpaceliftQuery_def and_then_def return_def throw_def)

lemma exec_retry_no_errors:
  "getSpaceliftJWT c w = (Inr t0, w1) \<Longrightarrow> makeRequest c q v t0 w1 = (Inr r0, w2) \<Longrightarrow>
   errors r0 = Some es \<Longrightarrow> str_includes (errorMessage es) ''unauthorized'' \<Longrightarrow>
   refreshSpaceliftJWT c w2 = (Inr t1, w3) \<Longrightarrow> makeRequest c q v t1 w3 = (Inr r1, w4) \<Longrightarrow>
   errors r1 = None \<Longrightarrow>
   executeSpaceliftQuery c q v w =
     (case data r1 of
        None \<Rightarrow> (Inl (Error ''No data returned from Spacelift API''), w4)
      | Some d \<Rightarrow> if truthy d then (Inr d, w4)
                  else (Inl (Error ''No data returned from Spacelift API''), w4))"
  by (simp add: executeSpaceliftQuery_def and_then_def return_def throw_def split: option.splits)

text \<open>What each step sends.\<close>

lemma fetch_login_requests: "requests (snd (fetch_login r w)) = requests w @ [r]"
  by (simp add: fetch_login_def Let_def split: list.splits)

lemma fetchNewJWT_requests:
  "requests (snd (fetchNewJWT c w)) =
     requests w @ [LoginRequest (endpoint c) (apiKeyId c) (apiKeySecret c)]"
proof -
  let ?req = "LoginRequest (endpoint c) (apiKeyId c) (apiKeySecret c)"
  obtain res w1 where f: "fetch_login ?req w = (res, w1)" by (cases "fetch_login ?req w")
  have r1: "requests w1 = requests w @ [?req]" using fetch_login_requests [of ?req w] f by simp
  show ?thesis
  proof (cases res)
    case (Inl e)
    with f r1 show ?thesis by (simp add: fetchNewJWT_def and_then_def)
  next
    case (Inr result)
    with f r1 show ?thesis
      by (simp add: fetchNewJWT_def and_then_def throw_def return_def
          split: option.splits prod.splits)
  qed
qed

lemma refresh_requests:
  "requests (snd (refreshSpaceliftJWT c w)) =
     requests w @ [LoginRequest (endpoint c) (apiKeyId c) (apiKeySecret c)]"
proof -
  obtain res w1 where f: "fetchNewJWT c w = (res, w1)" by (cases "fetchNewJWT c w")
  have r1: "requests w1 = requests w @ [LoginRequest (endpoint c) (apiKeyId c) (apiKeySecret c)]"
    using fetchNewJWT_requests [of c w] f by simp
  show ?thesis
  proof (cases res)
    case (Inl e)
    with f r1 show ?thesis by (simp add: refreshSpaceliftJWT_def and_then_def Let_def)
  next
    case (Inr p)
    with f r1 show ?thesis
      by (cases p) (simp add: refreshSpaceliftJWT_def and_then_def Let_def date_now_def kv_set_def return_def)
  qed
qed

lemma makeRequest_requests:
  "requests (snd (makeRequest c q v t w)) = requests w @ [QueryRequest (endpoint c) t q v]"
  by (simp add: makeRequest_def fetch_query_def Let_def split: list.splits)

lemma getSpaceliftJWT_requests:
  "requests (snd (getSpaceliftJWT c w)) = requests w
   \<or> requests (snd (getSpaceliftJWT c w)) =
        requests w @ [LoginRequest (endpoint c) (apiKeyId c) (apiKeySecret c)]"
  using refresh_requests [of c w]
  by (simp add: getSpaceliftJWT_def and_then_def kv_get_def return_def Let_def split: option.splits)

lemma queries_sent_append_query [simp]:
  "requests w' = requests w @ [QueryRequest e t q v] \<Longrightarrow> queries_sent w' = Suc (queries_sent w)"
  by (simp add: queries_sent_def)

lemma queries_sent_append_login [simp]:
  "requests w' = requests w @ [LoginRequest e i s] \<Longrightarrow> queries_sent w' = queries_sent w"
  by (simp add: queries_sent_def)

lemma logins_sent_append_query [simp]:
  "requests w' = requests w @ [QueryRequest e t q v] \<Longrightarrow> logins_sent w' = logins_sent w"
  by (simp add: logins_sent_def)

lemma logins_sent_append_login [simp]:
  "requests w' = requests w @ [LoginRequest e i s] \<Longrightarrow> logins_sent w' = Suc (logins_sent w)"
  by (simp add: logins_sent_def)

lemma exec_requests_after_first:
  assumes g: "getSpaceliftJWT c w = (Inr t0, w1)"
    and m: "makeRequest c q v t0 w1 = (Inr r0, w2)"
  shows "requests (snd (executeSpaceliftQuery c q v w)) =
           requests w2 @
             (case errors r0 of
                None \<Rightarrow> []
              | Some es \<Rightarrow>
                  if str_includes (errorMessage es) ''unauthorized''
                  then LoginRequest (endpoint c) (apiKeyId c) (apiKeySecret c) #
                       (case fst (refreshSpaceliftJWT c w2) of
                          Inl e \<Rightarrow> []
                        | Inr t1 \<Rightarrow> [QueryRequest (endpoint c) t1 q v])
                  else [])"
proof (cases "errors r0")
  case None
  then show ?thesis using exec_no_errors [OF g m None] by (simp split: option.splits)
next
  case (Some es)
  show ?thesis
  proof (cases "str_includes (errorMessage es) ''unauthorized''")
    case False
    then show ?thesis using exec_other_errors [OF g m Some False] Some by simp
  next
    case True
    obtain res w3 where rf: "refreshSpaceliftJWT c w2 = (res, w3)"
      by (cases "refreshSpaceliftJWT c w2")
    have r3: "requests w3 = requests w2 @ [LoginRequest (endpoint c) (apiKeyId c) (apiKeySecret c)]"
      using refresh_requests [of c w2] rf by simp
    show ?thesis
    proof (cases res)
      case (Inl e)
      then show ?thesis using exec_refresh_failed [OF g m Some True] rf r3 Some True by simp
    next
      case (Inr t1)
      with rf have rf': "refreshSpaceliftJWT c w2 = (Inr t1, w3)" by simp
      obtain res' w4 where mk: "makeRequest c q v t1 w3 = (res', w4)"
        by (cases "makeRequest c q v t1 w3")
      have r4: "requests w4 = requests w3 @ [QueryRequest (endpoint c) t1 q v]"
        using makeRequest_requests [of c q v t1 w3] mk by simp
      have "snd (executeSpaceliftQuery c q v w) = w4"
      proof (cases res')
        case (Inl e)
        with mk show ?thesis using exec_retry_failed [OF g m Some True rf'] by simp
      next
        case (Inr r1)
        with mk have mk': "makeRequest c q v t1 w3 = (Inr r1, w4)" by simp
        show ?thesis
        proof (cases "errors r1")
          case None
          then show ?thesis using exec_retry_no_errors [OF g m Some True rf' mk' None]
            by (simp split: option.splits)
        next
          case (Some es1)
          then show ?thesis using exec_retry_errors [OF g m \<open>errors r0 = Some es\<close> True rf' mk' Some]
            by simp
        qed
      qed
      then show ?thesis using r4 r3 rf' Some True by simp
    qed
  qed
qed

lemma getSpaceliftJWT_queries: "queries_sent (snd (getSpaceliftJWT c w)) = queries_sent w"
  using getSpaceliftJWT_requests [of c w]
  by (auto simp: queries_sent_def)

lemma exec_queries_bound:
  "queries_sent (snd (executeSpaceliftQuery c q v w)) \<le> queries_sent w + 2"
proof -
  obtain res w1 where g: "getSpaceliftJWT c w = (res, w1)" by (cases "getSpaceliftJWT c w")
  have q1: "queries_sent w1 = queries_sent w" using getSpaceliftJWT_queries [of c w] g by simp
  show ?thesis
  proof (cases res)
    case (Inl e)
    with g q1 show ?thesis using exec_token_failed [of c w e w1 q v] by simp
  next
    case (Inr t0)
    with g have g': "getSpaceliftJWT c w = (Inr t0, w1)" by simp
    obtain res2 w2 where m: "makeRequest c q v t0 w1 = (res2, w2)"
      by (cases "makeRequest c q v t0 w1")
    have q2: "queries_sent w2 = Suc (queries_sent w1)"
      using makeRequest_requests [of c q v t0 w1] m by simp
    show ?thesis
    proof (cases res2)
      case (Inl e)
      with m q1 q2 show ?thesis using exec_request_failed [OF g', of q v e w2] by simp
    next
      case (Inr r0)
      with m have m': "makeRequest c q v t0 w1 = (Inr r0, w2)" by simp
      show ?thesis
        using exec_requests_after_first [OF g' m'] q1 q2
        by (simp add: queries_sent_def split: option.splits sum.splits)
    qed
  qed
qed

text \<open>Matching and the text of the error.\<close>

lemma some_message_matches:
  assumes "e \<in> set es" "str_includes (toLowerCase (message e)) ''unauthorized''"
  shows "str_includes (errorMessage es) ''unauthorized''"
proof -
  have "toLowerCase (message e) \<in> set (map toLowerCase (map message es))"
    using assms(1) by auto
  then show ?thesis
    unfolding errorMessage_def toLowerCase_join
    using assms(2) str_includes_join by blast
qed

lemma text_contains_message:
  assumes "e \<in> set es"
  shows "str_includes (graphql_error_text es) (message e)"
proof -
  have "format_error e \<in> set (map format_error es)" using assms by simp
  moreover have "str_includes (format_error e) (message e)"
  proof -
    have "\<exists>b. format_error e = '' - '' @ message e @ b"
      by (cases "extensions e") (simp_all add: format_error_def)
    then show ?thesis unfolding str_includes_iff by blast
  qed
  ultimately have "str_includes (join NL (map format_error es)) (message e)"
    by (rule str_includes_join)
  then obtain a b where "join NL (map format_error es) = a @ message e @ b"
    by (auto simp: str_includes_iff)
  then have "graphql_error_text es = (''GraphQL error:'' @ NL @ a) @ message e @ (b @ NL)"
    by (simp add: graphql_error_text_def)
  then show ?thesis unfolding str_includes_iff by blast
qed

lemma getCacheKey_injective:
  assumes "getCacheKey c1 = getCacheKey c2"
    and "(CHR ''_'' \<notin> set (endpoint c1) \<and> CHR ''_'' \<notin> set (endpoint c2))
         \<or> (CHR ''_'' \<notin> set (apiKeyId c1) \<and> CHR ''_'' \<notin> set (apiKeyId c2))"
  shows "endpoint c1 = endpoint c2 \<and> apiKeyId c1 = apiKeyId c2"
proof -
  from assms(1) have eq: "endpoint c1 @ CHR ''_'' # apiKeyId c1 = endpoint c2 @ CHR ''_'' # apiKeyId c2"
    by (simp add: getCacheKey_def)
  from assms(2) show ?thesis
  proof
    assume "CHR ''_'' \<notin> set (endpoint c1) \<and> CHR ''_'' \<notin> set (endpoint c2)"
    with eq show ?thesis
      using split_at_first [of "CHR ''_''" "endpoint c1" "endpoint c2" "apiKeyId c1" "apiKeyId c2"] by simp
  next
    assume "CHR ''_'' \<notin> set (apiKeyId c1) \<and> CHR ''_'' \<notin> set (apiKeyId c2)"
    with eq show ?thesis
      using split_at_last [of "CHR ''_''" "apiKeyId c1" "apiKeyId c2" "endpoint c1" "endpoint c2"] by simp
  qed
qed

text \<open>The example worlds: the cached token is found, and the next reply is consumed.\<close>

lemma example_world_token:
  "getSpaceliftJWT example_credentials (example_world ls qs) = (Inr ''old'', example_world ls qs)"
  by (simp add: getSpaceliftJWT_def and_then_def kv_get_def return_def getCacheKey_def
      example_credentials_def example_world_def)

lemma example_world_request:
  "makeRequest example_credentials q v t (example_world ls (r # qs)) =
     (Inr r, (example_world ls qs)
               \<lparr>requests := [QueryRequest ''acme.app.spacelift.io'' t q v]\<rparr>)"
  by (simp add: makeRequest_def fetch_query_def example_credentials_def example_world_def)

lemma fresh_world_login:
  "j \<noteq> [] \<Longrightarrow> u \<noteq> 0 \<Longrightarrow>
   fetchNewJWT example_credentials (fresh_world (login_ok j u # ls) qs) =
     (Inr (j, u), (fresh_world ls qs)
        \<lparr>requests := [LoginRequest ''acme.app.spacelift.io'' ''key1'' ''secret'']\<rparr>)"
  by (simp add: fetchNewJWT_def fetch_login_def and_then_def return_def throw_def Let_def
      login_ok_def fresh_world_def example_world_def example_credentials_def)

section \<open>The claims\<close>

subsection \<open>C1: the retry policy\<close>

text \<open>
  C1, as amended. For every execution of \<^verbatim>\<open>executeSpaceliftQuery\<close>, at most two caller
  queries are sent: at most one retry. Once the first response has arrived, a token
  refresh (a login mutation) is attempted exactly when the response has errors and the
  error messages, joined with single spaces and with the ASCII letters lower-cased,
  contain \<^verbatim>\<open>unauthorized\<close>; the retried query is sent exactly when, in addition, that
  refresh succeeds. A response whose errors do not match is thrown as a GraphQL error
  at once, in the world as it was when the response arrived: no retry and no refresh.
\<close>

theorem retry_policy:
  "queries_sent (snd (executeSpaceliftQuery c q v w)) \<le> queries_sent w + 2
   \<and> (\<forall>t0 w1 r0 w2.
        getSpaceliftJWT c w = (Inr t0, w1) \<and> makeRequest c q v t0 w1 = (Inr r0, w2) \<longrightarrow>
          (let final = snd (executeSpaceliftQuery c q v w);
               matched = (\<exists>es. errors r0 = Some es \<and> str_includes (errorMessage es) ''unauthorized'')
           in (logins_sent final = logins_sent w2 + 1 \<longleftrightarrow> matched)
            \<and> (logins_sent final = logins_sent w2 \<longleftrightarrow> \<not> matched)
            \<and> (queries_sent final = queries_sent w2 + 1 \<longleftrightarrow>
                 matched \<and> (\<exists>t1 w3. refreshSpaceliftJWT c w2 = (Inr t1, w3)))
            \<and> (queries_sent final = queries_sent w2 \<longleftrightarrow>
                 \<not> (matched \<and> (\<exists>t1 w3. refreshSpaceliftJWT c w2 = (Inr t1, w3))))
            \<and> (\<forall>es. errors r0 = Some es \<and> \<not> str_includes (errorMessage es) ''unauthorized'' \<longrightarrow>
                  executeSpaceliftQuery c q v w = (Inl (Error (graphql_error_text es)), w2))))"
proof (intro conjI allI impI)
  show "queries_sent (snd (executeSpaceliftQuery c q v w)) \<le> queries_sent w + 2"
    by (rule exec_queries_bound)
next
  fix t0 w1 r0 w2
  assume "getSpaceliftJWT c w = (Inr t0, w1) \<and> makeRequest c q v t0 w1 = (Inr r0, w2)"
  then have g: "getSpaceliftJWT c w = (Inr t0, w1)"
    and m: "makeRequest c q v t0 w1 = (Inr r0, w2)" by simp_all
  note rq = exec_requests_after_first [OF g m]
  have fst_iff: "(\<exists>t1 w3. refreshSpaceliftJWT c w2 = (Inr t1, w3))
                 \<longleftrightarrow> (\<exists>t1. fst (refreshSpaceliftJWT c w2) = Inr t1)"
    by (cases "refreshSpaceliftJWT c w2") auto
  show "let final = snd (executeSpaceliftQuery c q v w);
            matched = (\<exists>es. errors r0 = Some es \<and> str_includes (errorMessage es) ''unauthorized'')
        in (logins_sent final = logins_sent w2 + 1 \<longleftrightarrow> matched)
         \<and> (logins_sent final = logins_sent w2 \<longleftrightarrow> \<not> matched)
         \<and> (queries_sent final = queries_sent w2 + 1 \<longleftrightarrow>
              matched \<and> (\<exists>t1 w3. refreshSpaceliftJWT c w2 = (Inr t1, w3)))
         \<and> (queries_sent final = queries_sent w2 \<longleftrightarrow>
              \<not> (matched \<and> (\<exists>t1 w3. refreshSpaceliftJWT c w2 = (Inr t1, w3))))
         \<and> (\<forall>es. errors r0 = Some es \<and> \<not> str_includes (errorMessage es) ''unauthorized'' \<longrightarrow>
               executeSpaceliftQuery c q v w = (Inl (Error (graphql_error_text es)), w2))"
    unfolding Let_def fst_iff
    using rq exec_other_errors [OF g m]
    by (auto simp: queries_sent_def logins_sent_def split: option.splits sum.splits if_splits)
qed

text \<open>
  Run on the example: an \<^verbatim>\<open>Unauthorized\<close> first response gives two queries and one
  login; a first response \<^verbatim>\<open>boom\<close> is thrown at once after the single query.
\<close>

theorem retry_policy_witness:
  "queries_sent (snd (executeSpaceliftQuery example_credentials ''q'' JNull
      (example_world [login_ok ''new'' 1700000400]
         [failed_reply [''Unauthorized''], data_reply (JObj [])]))) = 2
   \<and> logins_sent (snd (executeSpaceliftQuery example_credentials ''q'' JNull
      (example_world [login_ok ''new'' 1700000400]
         [failed_reply [''Unauthorized''], data_reply (JObj [])]))) = 1
   \<and> executeSpaceliftQuery example_credentials ''q'' JNull
        (example_world [login_ok ''new'' 1700000400] [failed_reply [''boom''], data_reply (JObj [])])
      = (Inl (Error ''GraphQL error:\<newline> - boom\<newline>''),
         (example_world [login_ok ''new'' 1700000400] [data_reply (JObj [])])
           \<lparr>requests := [QueryRequest ''acme.app.spacelift.io'' ''old'' ''q'' JNull]\<rparr>)"
proof -
  let ?ls = "[login_ok ''new'' 1700000400]"
  let ?w = "example_world ?ls [failed_reply [''Unauthorized''], data_reply (JObj [])]"
  let ?w2 = "(example_world ?ls [data_reply (JObj [])])
               \<lparr>requests := [QueryRequest ''acme.app.spacelift.io'' ''old'' ''q'' JNull]\<rparr>"
  let ?u = "example_world ?ls [failed_reply [''boom''], data_reply (JObj [])]"
  have g: "getSpaceliftJWT example_credentials ?w = (Inr ''old'', ?w)"
    by (rule example_world_token)
  have m: "makeRequest example_credentials ''q'' JNull ''old'' ?w
             = (Inr (failed_reply [''Unauthorized'']), ?w2)"
    by (rule example_world_request)
  have e: "errors (failed_reply [''Unauthorized''] :: jsval SpaceliftApiResponse)
             = Some [plain_error ''Unauthorized'']"
    by (simp add: failed_reply_def)
  have match: "str_includes (errorMessage [plain_error ''Unauthorized'']) ''unauthorized''"
    by code_simp
  have rf: "refreshSpaceliftJWT example_credentials ?w2 =
              (Inr ''new'', snd (refreshSpaceliftJWT example_credentials ?w2))"
    by (simp add: refreshSpaceliftJWT_def fetchNewJWT_def fetch_login_def and_then_def
        return_def throw_def date_now_def kv_set_def Let_def login_ok_def example_world_def)
  have c0: "queries_sent ?w2 = 1" "logins_sent ?w2 = 0"
    by (simp_all add: queries_sent_def logins_sent_def)
  have gu: "getSpaceliftJWT example_credentials ?u = (Inr ''old'', ?u)"
    by (rule example_world_token)
  have mu: "makeRequest example_credentials ''q'' JNull ''old'' ?u
             = (Inr (failed_reply [''boom'']), ?w2)"
    by (rule example_world_request)
  have eu: "errors (failed_reply [''boom''] :: jsval SpaceliftApiResponse) = Some [plain_error ''boom'']"
    by (simp add: failed_reply_def)
  have nomatch: "\<not> str_includes (errorMessage [plain_error ''boom'']) ''unauthorized''"
    by code_simp
  have tx: "graphql_error_text [plain_error ''boom''] = ''GraphQL error:\<newline> - boom\<newline>''"
    by (simp add: graphql_error_text_def format_error_def plain_error_def NL_def)
  have matched: "\<exists>es. errors (failed_reply [''Unauthorized''] :: jsval SpaceliftApiResponse) = Some es
                       \<and> str_includes (errorMessage es) ''unauthorized''"
    using e match by blast
  have refreshed: "\<exists>t1 w3. refreshSpaceliftJWT example_credentials ?w2 = (Inr t1, w3)"
    using rf by blast
  note rp = retry_policy [of example_credentials "''q''" JNull ?w, THEN conjunct2, rule_format,
      OF conjI [OF g m], unfolded Let_def]
  from rp matched have "logins_sent (snd (executeSpaceliftQuery example_credentials ''q'' JNull ?w))
      = logins_sent ?w2 + 1" by blast
  then have a: "logins_sent (snd (executeSpaceliftQuery example_credentials ''q'' JNull ?w)) = 1"
    using c0 by simp
  from rp matched refreshed
  have "queries_sent (snd (executeSpaceliftQuery example_credentials ''q'' JNull ?w))
      = queries_sent ?w2 + 1" by blast
  then have b: "queries_sent (snd (executeSpaceliftQuery example_credentials ''q'' JNull ?w)) = 2"
    using c0 by simp
  note ru = retry_policy [of example_credentials "''q''" JNull ?u, THEN conjunct2, rule_format,
      OF conjI [OF gu mu], unfolded Let_def]
  from ru eu nomatch
  have c: "executeSpaceliftQuery example_credentials ''q'' JNull ?u
             = (Inl (Error (graphql_error_text [plain_error ''boom''])), ?w2)"
    by blast
  from a b c tx show ?thesis by simp
qed

text \<open>
  The claim as it is written fails twice. The messages \<^verbatim>\<open>Un\<close> and \<^verbatim>\<open>authorized\<close>
  concatenate to a text that contains \<^verbatim>\<open>unauthorized\<close>, but the source joins them with
  a space and does not retry. And when the first response is \<^verbatim>\<open>Unauthorized\<close> and the
  login is refused, the error of the login is thrown and no retried query is sent.
\<close>

theorem retry_policy_counterexample:
  "str_includes (toLowerCase (concat (map message [plain_error ''Un'', plain_error ''authorized''])))
     ''unauthorized''
   \<and> fst (executeSpaceliftQuery example_credentials ''q'' JNull
        (example_world [login_ok ''new'' 1700000400]
           [failed_reply [''Un'', ''authorized''], data_reply (JObj [])]))
      = Inl (Error ''GraphQL error:\<newline> - Un\<newline> - authorized\<newline>'')
   \<and> requests (snd (executeSpaceliftQuery example_credentials ''q'' JNull
        (example_world [login_ok ''new'' 1700000400]
           [failed_reply [''Un'', ''authorized''], data_reply (JObj [])])))
      = [QueryRequest ''acme.app.spacelift.io'' ''old'' ''q'' JNull]
   \<and> fst (executeSpaceliftQuery example_credentials ''q'' JNull
        (example_world [failed_reply [''bad key'']]
           [failed_reply [''Unauthorized''], data_reply (JObj [])]))
      = Inl (Error ''Authentication failed: bad key'')
   \<and> requests (snd (executeSpaceliftQuery example_credentials ''q'' JNull
        (example_world [failed_reply [''bad key'']]
           [failed_reply [''Unauthorized''], data_reply (JObj [])])))
      = [QueryRequest ''acme.app.spacelift.io'' ''old'' ''q'' JNull,
         LoginRequest ''acme.app.spacelift.io'' ''key1'' ''secret'']"
  by code_simp

subsection \<open>C2: the time to live of a refreshed token\<close>

text \<open>
  C2. For every login result \<open>(tok, validUntil)\<close> that \<^verbatim>\<open>fetchNewJWT\<close> returns, with
  \<open>now\<close> the clock in whole seconds, \<^verbatim>\<open>refreshSpaceliftJWT\<close> returns \<open>tok\<close> and stores
  it under the cache key with \<open>ttl = max (validUntil - now - 300) 60\<close>: the ttl is at
  least 60, it is 100 for \<open>validUntil = now + 400\<close> and 60 for \<open>validUntil = now + 50\<close>.
\<close>

theorem refresh_ttl:
  assumes "fetchNewJWT c w = (Inr (tok, validUntil), w1)"
  shows "\<exists>w' ttl. refreshSpaceliftJWT c w = (Inr tok, w')
           \<and> kv_store w' (getCacheKey c) = Some (\<lparr> jwt = tok \<rparr>, ttl)
           \<and> ttl = max (validUntil - clock_ms w1 div 1000 - 300) 60
           \<and> 60 \<le> ttl
           \<and> (validUntil = clock_ms w1 div 1000 + 400 \<longrightarrow> ttl = 100)
           \<and> (validUntil = clock_ms w1 div 1000 + 50 \<longrightarrow> ttl = 60)"
  using refresh_unfold [OF assms] by simp

text \<open>Run with nothing cached, at \<open>now = 1700000000\<close>.\<close>

theorem refresh_ttl_witness:
  "(\<exists>w'. refreshSpaceliftJWT example_credentials (fresh_world [login_ok ''new'' 1700000400] [])
            = (Inr ''new'', w')
         \<and> kv_store w' (getCacheKey example_credentials) = Some (\<lparr> jwt = ''new'' \<rparr>, 100))
   \<and> (\<exists>w'. refreshSpaceliftJWT example_credentials (fresh_world [login_ok ''new'' 1700000050] [])
            = (Inr ''new'', w')
         \<and> kv_store w' (getCacheKey example_credentials) = Some (\<lparr> jwt = ''new'' \<rparr>, 60))"
proof -
  have clock: "clock_ms ((fresh_world [] [])
        \<lparr>requests := [LoginRequest ''acme.app.spacelift.io'' ''key1'' ''secret'']\<rparr>) div 1000
      = 1700000000"
    by (simp add: fresh_world_def example_world_def)
  have l1: "fetchNewJWT example_credentials (fresh_world [login_ok ''new'' 1700000400] []) =
     (Inr (''new'', 1700000400), (fresh_world [] [])
        \<lparr>requests := [LoginRequest ''acme.app.spacelift.io'' ''key1'' ''secret'']\<rparr>)"
    by (rule fresh_world_login) simp_all
  have l2: "fetchNewJWT example_credentials (fresh_world [login_ok ''new'' 1700000050] []) =
     (Inr (''new'', 1700000050), (fresh_world [] [])
        \<lparr>requests := [LoginRequest ''acme.app.spacelift.io'' ''key1'' ''secret'']\<rparr>)"
    by (rule fresh_world_login) simp_all
  from refresh_ttl [OF l1] refresh_ttl [OF l2] show ?thesis
    unfolding clock by simp
qed

subsection \<open>C3: the retried request\<close>

text \<open>
  C3, as amended. When the first response has errors one of whose messages contains
  \<^verbatim>\<open>unauthorized\<close> in any (ASCII) case, and the token refresh succeeds with token
  \<open>t1\<close>, then exactly one further query is sent, after the login mutation, and it
  carries \<open>t1\<close>, which is the token now in the cache. If the retried response has
  errors too, the execution fails with the GraphQL error made of the errors of the
  retried response, and its text contains every message of the retried response.
\<close>

theorem retry_after_unauthorized:
  assumes "getSpaceliftJWT c w = (Inr t0, w1)"
    and "makeRequest c q v t0 w1 = (Inr r0, w2)"
    and "errors r0 = Some es"
    and "\<exists>e \<in> set es. str_includes (toLowerCase (message e)) ''unauthorized''"
    and "refreshSpaceliftJWT c w2 = (Inr t1, w3)"
  shows "requests (snd (executeSpaceliftQuery c q v w)) =
           requests w2 @ [LoginRequest (endpoint c) (apiKeyId c) (apiKeySecret c),
                          QueryRequest (endpoint c) t1 q v]
         \<and> (\<exists>ttl. kv_store w3 (getCacheKey c) = Some (\<lparr> jwt = t1 \<rparr>, ttl))
         \<and> (\<forall>r1 w4 es1. makeRequest c q v t1 w3 = (Inr r1, w4) \<and> errors r1 = Some es1 \<longrightarrow>
               executeSpaceliftQuery c q v w = (Inl (Error (graphql_error_text es1)), w4)
               \<and> (\<forall>e \<in> set es1. str_includes (graphql_error_text es1) (message e)))"
proof -
  from assms(4) have match: "str_includes (errorMessage es) ''unauthorized''"
    using some_message_matches by blast
  have "requests (snd (executeSpaceliftQuery c q v w)) =
           requests w2 @ [LoginRequest (endpoint c) (apiKeyId c) (apiKeySecret c),
                          QueryRequest (endpoint c) t1 q v]"
    using exec_requests_after_first [OF assms(1,2)] assms(3,5) match by simp
  moreover have "\<exists>ttl. kv_store w3 (getCacheKey c) = Some (\<lparr> jwt = t1 \<rparr>, ttl)"
    using refresh_stores [OF assms(5)] by auto
  moreover have "\<forall>r1 w4 es1. makeRequest c q v t1 w3 = (Inr r1, w4) \<and> errors r1 = Some es1 \<longrightarrow>
               executeSpaceliftQuery c q v w = (Inl (Error (graphql_error_text es1)), w4)
               \<and> (\<forall>e \<in> set es1. str_includes (graphql_error_text es1) (message e))"
    using exec_retry_errors [OF assms(1,2,3) match assms(5)] text_contains_message by blast
  ultimately show ?thesis by blast
qed

text \<open>Run on the example: the retried response has the errors \<^verbatim>\<open>boom\<close> and \<^verbatim>\<open>bang\<close>.\<close>

theorem retry_after_unauthorized_witness:
  "requests (snd (executeSpaceliftQuery example_credentials ''q'' JNull
      (example_world [login_ok ''new'' 1700000400]
         [failed_reply [''UNAUTHORIZED: token expired''], failed_reply [''boom'', ''bang'']])))
     = [QueryRequest ''acme.app.spacelift.io'' ''old'' ''q'' JNull,
        LoginRequest ''acme.app.spacelift.io'' ''key1'' ''secret'',
        QueryRequest ''acme.app.spacelift.io'' ''new'' ''q'' JNull]
   \<and> fst (executeSpaceliftQuery example_credentials ''q'' JNull
      (example_world [login_ok ''new'' 1700000400]
         [failed_reply [''UNAUTHORIZED: token expired''], failed_reply [''boom'', ''bang'']]))
     = Inl (Error (graphql_error_text [plain_error ''boom'', plain_error ''bang'']))
   \<and> str_includes (graphql_error_text [plain_error ''boom'', plain_error ''bang'']) ''boom''
   \<and> str_includes (graphql_error_text [plain_error ''boom'', plain_error ''bang'']) ''bang''"
proof -
  let ?ls = "[login_ok ''new'' 1700000400]"
  let ?r0 = "failed_reply [''UNAUTHORIZED: token expired''] :: jsval SpaceliftApiResponse"
  let ?r1 = "failed_reply [''boom'', ''bang''] :: jsval SpaceliftApiResponse"
  let ?w = "example_world ?ls [?r0, ?r1]"
  let ?w2 = "(example_world ?ls [?r1])
               \<lparr>requests := [QueryRequest ''acme.app.spacelift.io'' ''old'' ''q'' JNull]\<rparr>"
  let ?w3 = "snd (refreshSpaceliftJWT example_credentials ?w2)"
  let ?w4 = "snd (makeRequest example_credentials ''q'' JNull ''new'' ?w3)"
  have g: "getSpaceliftJWT example_credentials ?w = (Inr ''old'', ?w)"
    by (rule example_world_token)
  have m: "makeRequest example_credentials ''q'' JNull ''old'' ?w = (Inr ?r0, ?w2)"
    by (rule example_world_request)
  have e: "errors ?r0 = Some [plain_error ''UNAUTHORIZED: token expired'']"
    by (simp add: failed_reply_def)
  have match: "\<exists>e \<in> set [plain_error ''UNAUTHORIZED: token expired''].
                 str_includes (toLowerCase (message e)) ''unauthorized''"
  proof -
    have "str_includes (toLowerCase (message (plain_error ''UNAUTHORIZED: token expired'')))
            ''unauthorized''"
      by code_simp
    then show ?thesis by simp
  qed
  have rf: "refreshSpaceliftJWT example_credentials ?w2 = (Inr ''new'', ?w3)"
    by (simp add: refreshSpaceliftJWT_def fetchNewJWT_def fetch_login_def and_then_def
        return_def throw_def date_now_def kv_set_def Let_def login_ok_def example_world_def)
  have q3: "query_replies ?w3 = [?r1]"
    by (simp add: refreshSpaceliftJWT_def fetchNewJWT_def fetch_login_def and_then_def
        return_def throw_def date_now_def kv_set_def Let_def login_ok_def example_world_def)
  have mk: "makeRequest example_credentials ''q'' JNull ''new'' ?w3 = (Inr ?r1, ?w4)"
    using q3 by (simp add: makeRequest_def fetch_query_def Let_def)
  have e1: "errors ?r1 = Some [plain_error ''boom'', plain_error ''bang'']"
    by (simp add: failed_reply_def)
  note th = retry_after_unauthorized [OF g m e match rf]
  from th have a: "requests (snd (executeSpaceliftQuery example_credentials ''q'' JNull ?w)) =
      requests ?w2 @ [LoginRequest (endpoint example_credentials) (apiKeyId example_credentials)
                        (apiKeySecret example_credentials),
                      QueryRequest (endpoint example_credentials) ''new'' ''q'' JNull]"
    by (rule conjunct1)
  from th mk e1 have b: "executeSpaceliftQuery example_credentials ''q'' JNull ?w
      = (Inl (Error (graphql_error_text [plain_error ''boom'', plain_error ''bang''])), ?w4)
      \<and> (\<forall>e \<in> set [plain_error ''boom'', plain_error ''bang''].
            str_includes (graphql_error_text [plain_error ''boom'', plain_error ''bang'']) (message e))"
    by blast
  from a b show ?thesis
    by (simp add: example_credentials_def plain_error_def)
qed

text \<open>
  The text does not contain the messages of the original, first response: those are
  dropped when \<^verbatim>\<open>result\<close> is overwritten by the retried response.
\<close>

theorem retry_after_unauthorized_counterexample:
  "fst (executeSpaceliftQuery example_credentials ''q'' JNull
        (example_world [login_ok ''new'' 1700000400]
           [failed_reply [''Unauthorized''], failed_reply [''boom'']]))
      = Inl (Error ''GraphQL error:\<newline> - boom\<newline>'')
   \<and> \<not> str_includes ''GraphQL error:\<newline> - boom\<newline>'' ''Unauthorized''"
  by code_simp

subsection \<open>C4: extracting the credentials\<close>

text \<open>
  C4. \<^verbatim>\<open>extractCredentials\<close> returns credentials if and only if the configuration
  has truthy values under \<^verbatim>\<open>apiKeyId\<close>, \<^verbatim>\<open>apiKeySecret\<close> and \<^verbatim>\<open>endpoint\<close>; it then
  returns those three values as they are, and otherwise throws the error that says
  the credentials are missing. It is a pure function: it takes no world and returns
  none.
\<close>

theorem extractCredentials_spec:
  "((\<exists>c. extractCredentials cfg = Inr c) \<longleftrightarrow>
      (\<exists>a s e. cfg ''apiKeyId'' = Some a \<and> truthy a \<and> cfg ''apiKeySecret'' = Some s \<and> truthy s
               \<and> cfg ''endpoint'' = Some e \<and> truthy e))
   \<and> (\<forall>a s e. cfg ''apiKeyId'' = Some a \<and> truthy a \<and> cfg ''apiKeySecret'' = Some s \<and> truthy s
               \<and> cfg ''endpoint'' = Some e \<and> truthy e \<longrightarrow>
         extractCredentials cfg = Inr \<lparr> apiKeyId = a, apiKeySecret = s, endpoint = e \<rparr>)
   \<and> ((\<forall>c. extractCredentials cfg \<noteq> Inr c) \<longrightarrow>
         extractCredentials cfg = Inl (Error ''Missing required Spacelift credentials in app config''))"
  by (auto simp: extractCredentials_def get_prop_def split: option.splits)

text \<open>The two configurations of the specification.\<close>

theorem extractCredentials_spec_witness: "extractCredentials [''apiKeyId'' \<mapsto> JStr ''a'', ''apiKeySecret'' \<mapsto> JStr ''b'', ''endpoint'' \<mapsto> JStr ''x.example.com'']
   = Inr \<lparr> apiKeyId = JStr ''a'', apiKeySecret = JStr ''b'', endpoint = JStr ''x.example.com'' \<rparr>
  \<and> extractCredentials [''apiKeyId'' \<mapsto> JStr ''a'', ''apiKeySecret'' \<mapsto> JStr ''b''] = Inl (Error ''Missing required Spacelift credentials in app config'')"
  using extractCredentials_spec [of "[''apiKeyId'' \<mapsto> JStr ''a'', ''apiKeySecret'' \<mapsto> JStr ''b'', ''endpoint'' \<mapsto> JStr ''x.example.com'']"]
    extractCredentials_spec [of "[''apiKeyId'' \<mapsto> JStr ''a'', ''apiKeySecret'' \<mapsto> JStr ''b'']"]
  by simp

subsection \<open>C5: the cache key is injective only without underscores\<close>

text \<open>
  C5, as amended. The cache key depends on the endpoint and the key id only (equal
  pairs give equal keys), and two credentials with the same cache key have the same
  endpoint and the same key id provided neither endpoint contains an underscore, or
  neither key id does.
\<close>

theorem cache_key_injective:
  "(endpoint c1 = endpoint c2 \<and> apiKeyId c1 = apiKeyId c2 \<longrightarrow> getCacheKey c1 = getCacheKey c2)
   \<and> ((CHR ''_'' \<notin> set (endpoint c1) \<and> CHR ''_'' \<notin> set (endpoint c2))
        \<or> (CHR ''_'' \<notin> set (apiKeyId c1) \<and> CHR ''_'' \<notin> set (apiKeyId c2)) \<longrightarrow>
       getCacheKey c1 = getCacheKey c2 \<longrightarrow>
       endpoint c1 = endpoint c2 \<and> apiKeyId c1 = apiKeyId c2)"
  using getCacheKey_injective [of c1 c2] by (auto simp: getCacheKey_def)

theorem cache_key_injective_witness:
  "getCacheKey \<lparr> apiKeyId = ''key1'', apiKeySecret = ''s'', endpoint = ''acme.app.spacelift.io'' \<rparr>
     \<noteq> getCacheKey \<lparr> apiKeyId = ''key2'', apiKeySecret = ''s'', endpoint = ''acme.app.spacelift.io'' \<rparr>
   \<and> getCacheKey \<lparr> apiKeyId = ''key1'', apiKeySecret = ''s'', endpoint = ''acme.app.spacelift.io'' \<rparr>
     = getCacheKey \<lparr> apiKeyId = ''key1'', apiKeySecret = ''t'', endpoint = ''acme.app.spacelift.io'' \<rparr>"
  using cache_key_injective
    [of "\<lparr> apiKeyId = ''key1'', apiKeySecret = ''s'', endpoint = ''acme.app.spacelift.io'' \<rparr>"
        "\<lparr> apiKeyId = ''key2'', apiKeySecret = ''s'', endpoint = ''acme.app.spacelift.io'' \<rparr>"]
    cache_key_injective
    [of "\<lparr> apiKeyId = ''key1'', apiKeySecret = ''s'', endpoint = ''acme.app.spacelift.io'' \<rparr>"
        "\<lparr> apiKeyId = ''key1'', apiKeySecret = ''t'', endpoint = ''acme.app.spacelift.io'' \<rparr>"]
  by auto

text \<open>
  Without that proviso the underscore that separates the two parts is ambiguous:
  endpoint \<^verbatim>\<open>a\<close> with key id \<^verbatim>\<open>b_c\<close> and endpoint \<^verbatim>\<open>a_b\<close> with key id \<^verbatim>\<open>c\<close> share
  the key \<^verbatim>\<open>spacelift_jwt_a_b_c\<close>.
\<close>

theorem cache_key_injective_counterexample:
  "(endpoint \<lparr> apiKeyId = ''b_c'', apiKeySecret = ''s'', endpoint = ''a'' \<rparr>,
    apiKeyId \<lparr> apiKeyId = ''b_c'', apiKeySecret = ''s'', endpoint = ''a'' \<rparr>)
     \<noteq> (endpoint \<lparr> apiKeyId = ''c'', apiKeySecret = ''s'', endpoint = ''a_b'' \<rparr>,
         apiKeyId \<lparr> apiKeyId = ''c'', apiKeySecret = ''s'', endpoint = ''a_b'' \<rparr>)
   \<and> getCacheKey \<lparr> apiKeyId = ''b_c'', apiKeySecret = ''s'', endpoint = ''a'' \<rparr>
     = getCacheKey \<lparr> apiKeyId = ''c'', apiKeySecret = ''s'', endpoint = ''a_b'' \<rparr>"
  by (simp add: getCacheKey_def)

subsection \<open>C6: the format of the cache key\<close>

text \<open>
  C6, as amended. The cache key is \<^verbatim>\<open>spacelift_jwt_\<close>, the endpoint, an underscore and
  the key id. A token stored under that key is what \<^verbatim>\<open>getSpaceliftJWT\<close> returns, and
  a successful \<^verbatim>\<open>refreshSpaceliftJWT\<close> changes the store under that key only.
\<close>

theorem cache_key_format:
  "getCacheKey c = ''spacelift_jwt_'' @ endpoint c @ ''_'' @ apiKeyId c
   \<and> (\<forall>t ttl. kv_store w (''spacelift_jwt_'' @ endpoint c @ ''_'' @ apiKeyId c) = Some (t, ttl) \<longrightarrow>
         getSpaceliftJWT c w = (Inr (jwt t), w))
   \<and> (\<forall>tok w'. refreshSpaceliftJWT c w = (Inr tok, w') \<longrightarrow>
         (\<exists>ttl. kv_store w' =
            (kv_store w)(''spacelift_jwt_'' @ endpoint c @ ''_'' @ apiKeyId c \<mapsto> (\<lparr> jwt = tok \<rparr>, ttl))))"
proof -
  have k: "getCacheKey c = ''spacelift_jwt_'' @ endpoint c @ ''_'' @ apiKeyId c"
    by (simp add: getCacheKey_def)
  show ?thesis
    using getSpaceliftJWT_cached [of w c] refresh_stores [of c w]
    unfolding k by blast
qed

theorem cache_key_format_witness:
  "getCacheKey example_credentials = ''spacelift_jwt_acme.app.spacelift.io_key1''
   \<and> getSpaceliftJWT example_credentials (example_world [] []) = (Inr ''old'', example_world [] [])"
  using cache_key_format [of example_credentials "example_world [] []"]
  by (simp add: example_credentials_def example_world_def)

text \<open>The key is not the \<^verbatim>\<open>jwt:{endpointHost}:{keyId}\<close> of the specification.\<close>

theorem cache_key_format_counterexample:
  "getCacheKey \<lparr> apiKeyId = ''key1'', apiKeySecret = ''secret'', endpoint = ''acme.app.spacelift.io'' \<rparr>
     = ''spacelift_jwt_acme.app.spacelift.io_key1''
   \<and> getCacheKey \<lparr> apiKeyId = ''key1'', apiKeySecret = ''secret'', endpoint = ''acme.app.spacelift.io'' \<rparr>
     \<noteq> ''jwt:acme.app.spacelift.io:key1''"
  by (simp add: getCacheKey_def)

subsection \<open>C7: the response without errors\<close>

text \<open>
  C7, as amended. On the path without errors, where \<open>r\<close> is the first response when
  it has no errors, or the retried response when it has none: if \<^verbatim>\<open>data\<close> is truthy it
  is returned unchanged; if \<^verbatim>\<open>data\<close> is absent or falsy (\<^verbatim>\<open>null\<close>, \<^verbatim>\<open>false\<close>,
  \<^verbatim>\<open>0\<close>, the empty string) the call fails with the error
  \<^verbatim>\<open>No data returned from Spacelift API\<close>.
\<close>

theorem no_errors_path:
  assumes "getSpaceliftJWT c w = (Inr t0, w1)"
    and "makeRequest c q v t0 w1 = (Inr r0, w2)"
    and "(errors r0 = None \<and> r = r0 \<and> w' = w2)
         \<or> (\<exists>es t1 w3. errors r0 = Some es \<and> str_includes (errorMessage es) ''unauthorized''
               \<and> refreshSpaceliftJWT c w2 = (Inr t1, w3)
               \<and> makeRequest c q v t1 w3 = (Inr r, w') \<and> errors r = None)"
  shows "executeSpaceliftQuery c q v w =
           (case data r of
              None \<Rightarrow> (Inl (Error ''No data returned from Spacelift API''), w')
            | Some d \<Rightarrow> if truthy d then (Inr d, w')
                        else (Inl (Error ''No data returned from Spacelift API''), w'))"
  using assms(3)
proof
  assume "errors r0 = None \<and> r = r0 \<and> w' = w2"
  then have "errors r0 = None" and eq: "r0 = r" "w2 = w'" by simp_all
  from exec_no_errors [OF assms(1,2) this(1)] show ?thesis unfolding eq .
next
  assume "\<exists>es t1 w3. errors r0 = Some es \<and> str_includes (errorMessage es) ''unauthorized''
               \<and> refreshSpaceliftJWT c w2 = (Inr t1, w3)
               \<and> makeRequest c q v t1 w3 = (Inr r, w') \<and> errors r = None"
  then obtain es t1 w3 where "errors r0 = Some es" "str_includes (errorMessage es) ''unauthorized''"
    "refreshSpaceliftJWT c w2 = (Inr t1, w3)" "makeRequest c q v t1 w3 = (Inr r, w')" "errors r = None"
    by blast
  then show ?thesis using exec_retry_no_errors [OF assms(1,2)] by simp
qed

text \<open>Run on the example: an object is returned; a response with neither field fails.\<close>

theorem no_errors_path_witness:
  "executeSpaceliftQuery example_credentials ''q'' JNull
     (example_world [] [data_reply (JObj [(''stacks'', JArr [])])])
   = (Inr (JObj [(''stacks'', JArr [])]),
      (example_world [] [])
        \<lparr>requests := [QueryRequest ''acme.app.spacelift.io'' ''old'' ''q'' JNull]\<rparr>)
   \<and> fst (executeSpaceliftQuery example_credentials ''q'' JNull
        (example_world [] [\<lparr> data = None, errors = None \<rparr>]))
     = Inl (Error ''No data returned from Spacelift API'')"
proof -
  have n1: "errors (data_reply (JObj [(''stacks'', JArr [])])) = None
            \<and> data_reply (JObj [(''stacks'', JArr [])]) = data_reply (JObj [(''stacks'', JArr [])])
            \<and> (example_world [] [])
                 \<lparr>requests := [QueryRequest ''acme.app.spacelift.io'' ''old'' ''q'' JNull]\<rparr>
              = (example_world [] [])
                 \<lparr>requests := [QueryRequest ''acme.app.spacelift.io'' ''old'' ''q'' JNull]\<rparr>"
    by (simp add: data_reply_def)
  have n2: "errors \<lparr> data = None :: jsval option, errors = None \<rparr> = None
            \<and> \<lparr> data = None :: jsval option, errors = None \<rparr> = \<lparr> data = None, errors = None \<rparr>
            \<and> (example_world [] [])
                 \<lparr>requests := [QueryRequest ''acme.app.spacelift.io'' ''old'' ''q'' JNull]\<rparr>
              = (example_world [] [])
                 \<lparr>requests := [QueryRequest ''acme.app.spacelift.io'' ''old'' ''q'' JNull]\<rparr>"
    by simp
  from no_errors_path [OF example_world_token example_world_request disjI1, OF n1]
    no_errors_path [OF example_world_token example_world_request disjI1, OF n2]
  show ?thesis by (simp add: data_reply_def)
qed

text \<open>A \<^verbatim>\<open>data\<close> that is present but \<^verbatim>\<open>null\<close> is not returned: the call fails.\<close>

theorem no_errors_path_counterexample:
  "data (data_reply JNull) = Some JNull
   \<and> errors (data_reply JNull) = None
   \<and> executeSpaceliftQuery example_credentials ''q'' JNull (example_world [] [data_reply JNull])
      = (Inl (Error ''No data returned from Spacelift API''),
         (example_world [] [])
           \<lparr>requests := [QueryRequest ''acme.app.spacelift.io'' ''old'' ''q'' JNull]\<rparr>)"
  by (simp add: data_reply_def exec_no_errors [OF example_world_token example_world_request])

subsection \<open>C8: the text of a GraphQL error\<close>

text \<open>
  C8, as amended. The message thrown for an error list is \<^verbatim>\<open>GraphQL error:\<close>, a line
  feed, the rendered errors joined by line feeds, and a line feed. An error without
  extensions renders as \<^verbatim>\<open>" - {message}"\<close>; an error whose extensions are an object
  renders as \<^verbatim>\<open>" - {message}:"\<close>, a line feed, and the lines
  \<^verbatim>\<open>"    {n}. {key}: {value}"\<close>, each indented by four spaces, numbered from 1 in
  entry order and joined by line feeds. Both GraphQL errors of
  \<^verbatim>\<open>executeSpaceliftQuery\<close> carry this text: the one thrown for a first response whose
  errors do not match, and the one thrown for a retried response with errors.
\<close>

theorem graphql_error_format:
  "graphql_error_text es = ''GraphQL error:\<newline>'' @ join ''\<newline>'' (map format_error es) @ ''\<newline>''
   \<and> (extensions e = None \<longrightarrow> format_error e = '' - '' @ message e)
   \<and> (\<forall>kvs. extensions e = Some (ExtObject kvs) \<longrightarrow>
         format_error e =
           '' - '' @ message e @ '':\<newline>'' @
           join ''\<newline>''
             (map (\<lambda>i. ''    '' @ string_of_nat (i + 1) @ ''. '' @ fst (kvs ! i) @ '': '' @ snd (kvs ! i))
                  [0..<length kvs]))
   \<and> (\<forall>t0 w1 r0 w2 es0.
         getSpaceliftJWT c w = (Inr t0, w1) \<and> makeRequest c q v t0 w1 = (Inr r0, w2)
         \<and> errors r0 = Some es0 \<longrightarrow>
           (\<not> str_includes (errorMessage es0) ''unauthorized'' \<longrightarrow>
              fst (executeSpaceliftQuery c q v w) = Inl (Error (graphql_error_text es0)))
         \<and> (\<forall>t1 w3 r1 w4 es1.
               str_includes (errorMessage es0) ''unauthorized''
               \<and> refreshSpaceliftJWT c w2 = (Inr t1, w3)
               \<and> makeRequest c q v t1 w3 = (Inr r1, w4) \<and> errors r1 = Some es1 \<longrightarrow>
                 fst (executeSpaceliftQuery c q v w) = Inl (Error (graphql_error_text es1))))"
proof -
  have "map (\<lambda>(index, (k, v)). ''    '' @ string_of_nat (index + 1) @ ''. '' @ k @ '': '' @ v)
            (enumerate 0 kvs)
        = map (\<lambda>i. ''    '' @ string_of_nat (i + 1) @ ''. '' @ fst (kvs ! i) @ '': '' @ snd (kvs ! i))
              [0..<length kvs]" for kvs :: "(string \<times> string) list"
    by (rule enumerate_map_index)
  then have fmt: "graphql_error_text es
        = ''GraphQL error:\<newline>'' @ join ''\<newline>'' (map format_error es) @ ''\<newline>''
   \<and> (extensions e = None \<longrightarrow> format_error e = '' - '' @ message e)
   \<and> (\<forall>kvs. extensions e = Some (ExtObject kvs) \<longrightarrow>
         format_error e =
           '' - '' @ message e @ '':\<newline>'' @
           join ''\<newline>''
             (map (\<lambda>i. ''    '' @ string_of_nat (i + 1) @ ''. '' @ fst (kvs ! i) @ '': '' @ snd (kvs ! i))
                  [0..<length kvs]))"
    by (simp add: graphql_error_text_def format_error_def formatExtensions_def NL_def)
  have thrown: "(\<not> str_includes (errorMessage es0) ''unauthorized'' \<longrightarrow>
              fst (executeSpaceliftQuery c q v w) = Inl (Error (graphql_error_text es0)))
         \<and> (\<forall>t1 w3 r1 w4 es1.
               str_includes (errorMessage es0) ''unauthorized''
               \<and> refreshSpaceliftJWT c w2 = (Inr t1, w3)
               \<and> makeRequest c q v t1 w3 = (Inr r1, w4) \<and> errors r1 = Some es1 \<longrightarrow>
                 fst (executeSpaceliftQuery c q v w) = Inl (Error (graphql_error_text es1)))"
    if "getSpaceliftJWT c w = (Inr t0, w1) \<and> makeRequest c q v t0 w1 = (Inr r0, w2)
         \<and> errors r0 = Some es0" for t0 w1 r0 w2 es0
  proof -
    from that have g: "getSpaceliftJWT c w = (Inr t0, w1)"
      and m: "makeRequest c q v t0 w1 = (Inr r0, w2)" and e: "errors r0 = Some es0" by simp_all
    have "fst (executeSpaceliftQuery c q v w) = Inl (Error (graphql_error_text es0))"
      if "\<not> str_includes (errorMessage es0) ''unauthorized''"
      using exec_other_errors [OF g m e that] by simp
    moreover have "fst (executeSpaceliftQuery c q v w) = Inl (Error (graphql_error_text es1))"
      if "str_includes (errorMessage es0) ''unauthorized''
               \<and> refreshSpaceliftJWT c w2 = (Inr t1, w3)
               \<and> makeRequest c q v t1 w3 = (Inr r1, w4) \<and> errors r1 = Some es1" for t1 w3 r1 w4 es1
    proof -
      from that have "str_includes (errorMessage es0) ''unauthorized''"
        "refreshSpaceliftJWT c w2 = (Inr t1, w3)" "makeRequest c q v t1 w3 = (Inr r1, w4)"
        "errors r1 = Some es1" by simp_all
      from exec_retry_errors [OF g m e this] show ?thesis by simp
    qed
    ultimately show ?thesis by blast
  qed
  from fmt thrown show ?thesis by blast
qed

theorem graphql_error_format_witness:
  "graphql_error_text
     [\<lparr> message = ''denied'', extensions = Some (ExtObject [(''code'', ''E42''), (''path'', ''stack'')]) \<rparr>,
      \<lparr> message = ''boom'', extensions = None \<rparr>]
   = ''GraphQL error:\<newline> - denied:\<newline>    1. code: E42\<newline>    2. path: stack\<newline> - boom\<newline>''"
proof -
  let ?e = "\<lparr> message = ''denied'',
              extensions = Some (ExtObject [(''code'', ''E42''), (''path'', ''stack'')]) \<rparr>"
  let ?f = "\<lparr> message = ''boom'', extensions = None \<rparr>"
  have n: "string_of_nat (Suc 0) = ''1''" "string_of_nat (Suc (Suc 0)) = ''2''" by code_simp+
  have u: "[0..<2] = [0, 1]" by (simp add: upt_rec)
  from graphql_error_format [where es = "[?e, ?f]" and e = ?e] have e: "format_error ?e
      = '' - denied:\<newline>    1. code: E42\<newline>    2. path: stack''"
    by (simp add: n u)
  from graphql_error_format [where es = "[?e, ?f]" and e = ?f] have f: "format_error ?f = '' - boom''"
    by simp
  from graphql_error_format [where es = "[?e, ?f]" and e = ?e] e f show ?thesis by simp
qed

text \<open>
  The specification's lines \<^verbatim>\<open>"{n}. {key}: {value}"\<close> have no indentation, so its text
  differs from the thrown one as soon as an error has an extension entry.
\<close>

theorem graphql_error_format_counterexample:
  "graphql_error_text [\<lparr> message = ''denied'', extensions = Some (ExtObject [(''code'', ''E42'')]) \<rparr>]
     = ''GraphQL error:\<newline> - denied:\<newline>    1. code: E42\<newline>''
   \<and> spec_graphql_error_text
       [\<lparr> message = ''denied'', extensions = Some (ExtObject [(''code'', ''E42'')]) \<rparr>]
     = ''GraphQL error:\<newline> - denied:\<newline>1. code: E42\<newline>''
   \<and> graphql_error_text [\<lparr> message = ''denied'', extensions = Some (ExtObject [(''code'', ''E42'')]) \<rparr>]
     \<noteq> spec_graphql_error_text
         [\<lparr> message = ''denied'', extensions = Some (ExtObject [(''code'', ''E42'')]) \<rparr>]"
  by code_simp

subsection \<open>C9: the variables of the creation mutation\<close>




















subsection \<open>C10: an empty error list is a failure\<close>

text \<open>
  C10. A response whose \<^verbatim>\<open>errors\<close> is present and empty, be it the first response or
  the retried one, is a failure whatever its \<^verbatim>\<open>data\<close> \<open>d\<close>: the call throws the
  GraphQL error with no message lines, in the world as it was when that response
  arrived, and never returns the data.
\<close>

theorem empty_errors_is_failure:
  assumes "getSpaceliftJWT c w = (Inr t0, w1)"
    and "makeRequest c q v t0 w1 = (Inr r0, w2)"
    and "(errors r0 = Some [] \<and> data r0 = d \<and> w' = w2)
         \<or> (\<exists>es t1 w3 r1. errors r0 = Some es \<and> str_includes (errorMessage es) ''unauthorized''
               \<and> refreshSpaceliftJWT c w2 = (Inr t1, w3)
               \<and> makeRequest c q v t1 w3 = (Inr r1, w') \<and> errors r1 = Some [] \<and> data r1 = d)"
  shows "executeSpaceliftQuery c q v w = (Inl (Error ''GraphQL error:\<newline>\<newline>''), w')"
  using assms(3)
proof
  assume "errors r0 = Some [] \<and> data r0 = d \<and> w' = w2"
  then have e: "errors r0 = Some []" and eq: "w2 = w'" by simp_all
  have "\<not> str_includes (errorMessage []) ''unauthorized''"
    by (simp add: errorMessage_def toLowerCase_def)
  from exec_other_errors [OF assms(1,2) e this] show ?thesis
    unfolding eq by (simp add: graphql_error_text_def NL_def)
next
  assume "\<exists>es t1 w3 r1. errors r0 = Some es \<and> str_includes (errorMessage es) ''unauthorized''
               \<and> refreshSpaceliftJWT c w2 = (Inr t1, w3)
               \<and> makeRequest c q v t1 w3 = (Inr r1, w') \<and> errors r1 = Some [] \<and> data r1 = d"
  then obtain es t1 w3 r1 where "errors r0 = Some es" "str_includes (errorMessage es) ''unauthorized''"
    "refreshSpaceliftJWT c w2 = (Inr t1, w3)" "makeRequest c q v t1 w3 = (Inr r1, w')"
    "errors r1 = Some []"
    by blast
  from exec_retry_errors [OF assms(1,2) this] show ?thesis
    by (simp add: graphql_error_text_def NL_def)
qed

text \<open>Run on a response that has both an empty error list and data.\<close>

theorem empty_errors_is_failure_witness:
  "executeSpaceliftQuery example_credentials ''q'' JNull
     (example_world [] [\<lparr> data = Some (JObj [(''stacks'', JArr [])]), errors = Some [] \<rparr>])
   = (Inl (Error ''GraphQL error:\<newline>\<newline>''),
      (example_world [] [])
        \<lparr>requests := [QueryRequest ''acme.app.spacelift.io'' ''old'' ''q'' JNull]\<rparr>)"
proof -
  let ?r = "\<lparr> data = Some (JObj [(''stacks'', JArr [])]), errors = Some [] \<rparr>"
  let ?w2 = "(example_world [] [])
               \<lparr>requests := [QueryRequest ''acme.app.spacelift.io'' ''old'' ''q'' JNull]\<rparr>"
  have h: "errors ?r = Some [] \<and> data ?r = Some (JObj [(''stacks'', JArr [])]) \<and> ?w2 = ?w2"
    by simp
  from empty_errors_is_failure [OF example_world_token example_world_request disjI1, OF h]
  show ?thesis .
qed

end
